theory Spec2Isabelle
  imports Main
begin

section \<open>Go strings: bytes, runes and UTF-8\<close>

text \<open>
  A Go \<^verbatim>\<open>string\<close> is a sequence of bytes, here a \<^typ>\<open>string\<close> (a list of 8-bit
  characters). A \<^verbatim>\<open>rune\<close> is a code point, here an \<^typ>\<open>int\<close>. Go's \<^verbatim>\<open>int\<close> is modelled
  as \<^typ>\<open>int\<close>: row counts, page offsets and terminal widths stay far below the
  machine range. Lengths and rune counts, which are never negative, are \<^typ>\<open>nat\<close>.
\<close>

type_synonym rune = int

definition RuneError :: rune where
  "RuneError = 0xFFFD"

definition byte :: "char \<Rightarrow> nat" where
  "byte c = of_char c"

text \<open>
  \<^verbatim>\<open>utf8.DecodeRuneInString\<close>: the first rune of \<open>s\<close> and its width in bytes. A byte that
  does not start a well-formed sequence decodes to \<open>RuneError\<close> with width 1. The tables
  \<^verbatim>\<open>first\<close> and \<^verbatim>\<open>acceptRanges\<close> of the standard library are the three functions
  \<open>seqSize\<close>, \<open>acceptLo\<close> and \<open>acceptHi\<close> of the leading byte.
\<close>

definition acceptLo :: "nat \<Rightarrow> nat" where
  "acceptLo s0 = (if s0 = 0xE0 then 0xA0 else if s0 = 0xF0 then 0x90 else 0x80)"

definition acceptHi :: "nat \<Rightarrow> nat" where
  "acceptHi s0 = (if s0 = 0xED then 0x9F else if s0 = 0xF4 then 0x8F else 0xBF)"

definition seqSize :: "nat \<Rightarrow> nat" where
  "seqSize s0 = (if s0 < 0xE0 then 2 else if s0 < 0xF0 then 3 else 4)"

definition DecodeRuneInString :: "string \<Rightarrow> rune \<times> nat" where
  "DecodeRuneInString s =
     (if length s < 1 then (RuneError, 0)
      else let s0 = byte (s ! 0) in
        if s0 < 0x80 then (int s0, 1)
        else if s0 < 0xC2 \<or> 0xF5 \<le> s0 then (RuneError, 1)
        else if length s < seqSize s0 then (RuneError, 1)
        else let s1 = byte (s ! 1) in
          if s1 < acceptLo s0 \<or> acceptHi s0 < s1 then (RuneError, 1)
          else if seqSize s0 \<le> 2 then (int ((s0 mod 32) * 64 + s1 mod 64), 2)
          else let s2 = byte (s ! 2) in
            if s2 < 0x80 \<or> 0xBF < s2 then (RuneError, 1)
            else if seqSize s0 \<le> 3
              then (int ((s0 mod 16) * 4096 + (s1 mod 64) * 64 + s2 mod 64), 3)
            else let s3 = byte (s ! 3) in
              if s3 < 0x80 \<or> 0xBF < s3 then (RuneError, 1)
              else (int ((s0 mod 8) * 262144 + (s1 mod 64) * 4096
                          + (s2 mod 64) * 64 + s3 mod 64), 4))"

lemma DecodeRune_width_pos: "s \<noteq> [] \<Longrightarrow> 0 < snd (DecodeRuneInString s)"
  by (cases s) (simp_all add: DecodeRuneInString_def Let_def)

lemma DecodeRune_width_le: "snd (DecodeRuneInString s) \<le> length s"
  unfolding DecodeRuneInString_def Let_def seqSize_def by (simp add: Suc_le_eq)

text \<open>\<^verbatim>\<open>utf8.RuneCountInString\<close>: the number of runes of \<open>s\<close>, each ill-formed byte counting
  as one.\<close>

function RuneCountInString :: "string \<Rightarrow> nat" where
  "RuneCountInString s =
     (if s = [] then 0
      else Suc (RuneCountInString (drop (snd (DecodeRuneInString s)) s)))"
  by pat_completeness auto
termination
  by (relation "measure length") (auto simp: DecodeRune_width_pos)

declare RuneCountInString.simps [simp del]

text \<open>The conversion \<^verbatim>\<open>[]rune(s)\<close>.\<close>

function stringToRunes :: "string \<Rightarrow> rune list" where
  "stringToRunes s =
     (if s = [] then []
      else fst (DecodeRuneInString s) # stringToRunes (drop (snd (DecodeRuneInString s)) s))"
  by pat_completeness auto
termination
  by (relation "measure length") (auto simp: DecodeRune_width_pos)

declare stringToRunes.simps [simp del]

text \<open>The conversion \<^verbatim>\<open>string(runes)\<close>: each rune in UTF-8, a surrogate or a value out
  of range as \<open>RuneError\<close>.\<close>

definition EncodeRune :: "rune \<Rightarrow> string" where
  "EncodeRune r =
     (let r' = (if r < 0 \<or> 0x10FFFF < r \<or> (0xD800 \<le> r \<and> r \<le> 0xDFFF) then RuneError else r);
          n = nat r'
      in if n < 0x80 then [char_of n]
         else if n < 0x800 then [char_of (0xC0 + n div 64), char_of (0x80 + n mod 64)]
         else if n < 0x10000
           then [char_of (0xE0 + n div 4096), char_of (0x80 + (n div 64) mod 64),
                 char_of (0x80 + n mod 64)]
         else [char_of (0xF0 + n div 262144), char_of (0x80 + (n div 4096) mod 64),
               char_of (0x80 + (n div 64) mod 64), char_of (0x80 + n mod 64)])"

text \<open>The rune that \<open>EncodeRune\<close> writes in place of \<open>r\<close>: \<open>RuneError\<close> for a surrogate or a
  value out of range, \<open>r\<close> itself otherwise.\<close>

definition encodable :: "rune \<Rightarrow> nat" where
  "encodable r =
     nat (if r < 0 \<or> 0x10FFFF < r \<or> (0xD800 \<le> r \<and> r \<le> 0xDFFF) then RuneError else r)"

definition runesToString :: "rune list \<Rightarrow> string" where
  "runesToString rs = concat (map EncodeRune rs)"

text \<open>\<^verbatim>\<open>unicode.IsSpace\<close>.\<close>

definition IsSpace :: "rune \<Rightarrow> bool" where
  "IsSpace r =
     (r = 0x09 \<or> r = 0x0A \<or> r = 0x0B \<or> r = 0x0C \<or> r = 0x0D \<or> r = 0x20 \<or> r = 0x85
      \<or> r = 0xA0 \<or> r = 0x1680 \<or> (0x2000 \<le> r \<and> r \<le> 0x200A) \<or> r = 0x2028 \<or> r = 0x2029
      \<or> r = 0x202F \<or> r = 0x205F \<or> r = 0x3000)"

text \<open>\<^verbatim>\<open>utf8.DecodeLastRuneInString\<close>: the last rune of \<open>s\<close> and its width. \<open>backLoop\<close> is
  its loop, which steps \<open>start\<close> back to the nearest byte that can start a rune, at most
  \<^verbatim>\<open>UTFMax\<close> bytes from the end.\<close>

definition RuneStart :: "nat \<Rightarrow> bool" where
  "RuneStart b = (b < 0x80 \<or> 0xC0 \<le> b)"

function backLoop :: "string \<Rightarrow> int \<Rightarrow> int \<Rightarrow> int" where
  "backLoop s start lim =
     (if start \<ge> lim
      then (if RuneStart (byte (s ! nat start)) then start else backLoop s (start - 1) lim)
      else start)"
  by pat_completeness auto
termination
  by (relation "measure (\<lambda>(s, start, lim). nat (start - lim + 1))") auto

declare backLoop.simps [simp del]

definition DecodeLastRuneInString :: "string \<Rightarrow> rune \<times> nat" where
  "DecodeLastRuneInString s =
     (let end = int (length s) in
      if end = 0 then (RuneError, 0)
      else let start = end - 1; r = byte (s ! nat start) in
        if r < 0x80 then (int r, 1)
        else let lim = max (end - 4) 0;
                 start = backLoop s (start - 1) lim;
                 start = (if start < 0 then 0 else start);
                 rs = DecodeRuneInString (drop (nat start) s)
             in if start + int (snd rs) \<noteq> end then (RuneError, 1) else rs)"

lemma backLoop_le: "backLoop s start lim \<le> start"
proof (induction s start lim rule: backLoop.induct)
  case (1 s start lim)
  show ?case
  proof (cases "start \<ge> lim \<and> \<not> RuneStart (byte (s ! nat start))")
    case True
    then have "backLoop s start lim = backLoop s (start - 1) lim"
      by (simp add: backLoop.simps [of s start lim])
    moreover have "backLoop s (start - 1) lim \<le> start - 1"
      using True "1.IH" by simp
    ultimately show ?thesis by simp
  next
    case False
    then show ?thesis by (auto simp: backLoop.simps [of s start lim])
  qed
qed

lemma DecodeLastRune_width_pos:
  assumes "s \<noteq> []"
  shows "0 < snd (DecodeLastRuneInString s)"
proof -
  let ?e = "int (length s)"
  let ?bl = "backLoop s (?e - 1 - 1) (max (?e - 4) 0)"
  let ?st = "if ?bl < 0 then 0 else ?bl"
  have e: "0 < ?e" using assms by simp
  have "?bl \<le> ?e - 1 - 1" by (rule backLoop_le)
  then have "?bl < ?e" by linarith
  then have lt: "?st < ?e" using e by (cases "?bl < 0") simp_all
  have "?st + int (snd (DecodeRuneInString (drop (nat ?st) s))) = ?e
        \<Longrightarrow> 0 < snd (DecodeRuneInString (drop (nat ?st) s))"
    using lt by linarith
  then show ?thesis
    using e unfolding DecodeLastRuneInString_def Let_def by auto
qed

text \<open>\<^verbatim>\<open>strings.TrimSpace\<close>: \<open>s\<close> without its leading and trailing white space, as
  \<^verbatim>\<open>TrimLeftFunc\<close> and \<^verbatim>\<open>TrimRightFunc\<close> with \<^verbatim>\<open>unicode.IsSpace\<close> remove it.\<close>

function trimLeftSpace :: "string \<Rightarrow> string" where
  "trimLeftSpace s =
     (if s = [] then []
      else if IsSpace (fst (DecodeRuneInString s))
        then trimLeftSpace (drop (snd (DecodeRuneInString s)) s)
      else s)"
  by pat_completeness auto
termination
  by (relation "measure length") (auto simp: DecodeRune_width_pos)

declare trimLeftSpace.simps [simp del]

function trimRightSpace :: "string \<Rightarrow> string" where
  "trimRightSpace s =
     (if s = [] then []
      else if IsSpace (fst (DecodeLastRuneInString s))
        then trimRightSpace (take (length s - snd (DecodeLastRuneInString s)) s)
      else s)"
  by pat_completeness auto
termination
  by (relation "measure length") (auto simp: DecodeLastRune_width_pos)

declare trimRightSpace.simps [simp del]

definition TrimSpace :: "string \<Rightarrow> string" where
  "TrimSpace s = trimRightSpace (trimLeftSpace s)"

text \<open>The verb \<^verbatim>\<open>%d\<close> of \<^verbatim>\<open>fmt.Sprintf\<close>: a signed decimal numeral.\<close>

function natDigits :: "nat \<Rightarrow> string" where
  "natDigits n =
     (if n < 10 then [char_of (48 + n)]
      else natDigits (n div 10) @ [char_of (48 + n mod 10)])"
  by pat_completeness auto
termination
  by (relation "measure id") auto

declare natDigits.simps [simp del]

definition formatInt :: "int \<Rightarrow> string" where
  "formatInt i = (if i < 0 then CHR ''-'' # natDigits (nat (- i)) else natDigits (nat i))"

text \<open>A byte below \<open>0x80\<close> is a rune of its own, whatever follows it.\<close>

definition ascii :: "char \<Rightarrow> bool" where
  "ascii c = (byte c < 0x80)"

section \<open>The table renderer and the horizontal clip\<close>

subsection \<open>Library functions on strings\<close>



text \<open>\<^verbatim>\<open>fmt.Sprintf("%-*s", w, s)\<close>: \<open>s\<close> padded with blanks on the right to \<open>w\<close> runes; a
  string of \<open>w\<close> runes or more is written as it is.\<close>

definition padRight :: "nat \<Rightarrow> string \<Rightarrow> string" where
  "padRight w s = s @ replicate (w - RuneCountInString s) (CHR '' '')"

subsection \<open>renderTable\<close>

text \<open>The two loops that compute the column widths: \<open>rowWidths i cells ws\<close> runs the inner
  loop over the cells of one row from index \<open>i\<close> on, \<open>tableWidths\<close> the outer loop over
  the rows.\<close>

fun rowWidths :: "nat \<Rightarrow> string list \<Rightarrow> nat list \<Rightarrow> nat list" where
  "rowWidths i [] widths = widths"
| "rowWidths i (cell # cells) widths =
     rowWidths (Suc i) cells
       (if i \<ge> length widths then widths
        else if RuneCountInString cell > widths ! i
          then widths[i := RuneCountInString cell]
        else widths)"

fun tableWidths :: "string list list \<Rightarrow> nat list \<Rightarrow> nat list" where
  "tableWidths [] widths = widths"
| "tableWidths (row # rows) widths = tableWidths rows (rowWidths 0 row widths)"

definition makeBorder :: "nat list \<Rightarrow> string" where
  "makeBorder widths =
     ''+'' @ concat (map (\<lambda>w. replicate (w + 2) (CHR ''-'') @ ''+'') widths) @ [CHR 0x0A]"

definition headerLine :: "nat list \<Rightarrow> string list \<Rightarrow> string" where
  "headerLine widths columns =
     ''|'' @ concat (map (\<lambda>i. '' '' @ padRight (widths ! i) (columns ! i) @ '' |'')
                      [0 ..< length columns])
     @ [CHR 0x0A]"

definition rowLine :: "nat list \<Rightarrow> string list \<Rightarrow> string list \<Rightarrow> string" where
  "rowLine widths columns row =
     ''|'' @ concat (map (\<lambda>i. let cell = (if i < length row then row ! i else [])
                            in '' '' @ padRight (widths ! i) cell @ '' |'')
                      [0 ..< length columns])
     @ [CHR 0x0A]"

definition renderTable :: "string list \<Rightarrow> string list list \<Rightarrow> string" where
  "renderTable columns rows =
     (if length columns = 0 then ''(No columns)'' @ [CHR 0x0A]
      else let widths = tableWidths rows (map RuneCountInString columns) in
        makeBorder widths
        @ headerLine widths columns
        @ makeBorder widths
        @ concat (map (rowLine widths columns) rows)
        @ makeBorder widths)"

subsection \<open>applyHorizontalScroll\<close>



section \<open>The interaction model\<close>

subsection \<open>Data\<close>

datatype mode = modeForm | modeTables | modeRows

record ConnConfig =
  Host :: string
  Port :: string
  User :: string
  Password :: string
  Database :: string

record QueryOptions =
  Limit :: int
  Offset :: int
  Filter :: string

record RowPage =
  Columns :: "string list"
  Rows :: "string list list"
  TotalRows :: int
  Offset' :: int

text \<open>A Go \<^verbatim>\<open>error\<close> value: \<open>None\<close> is \<^verbatim>\<open>nil\<close>, \<open>Some e\<close> an error whose \<^verbatim>\<open>Error()\<close> text
  is \<open>e\<close>.\<close>

type_synonym error = "string option"

text \<open>The messages \<open>Update\<close> receives. \<open>'k\<close> is the type of key events
  (\<^verbatim>\<open>tea.KeyMsg\<close>); \<open>OtherMsg\<close> stands for every message type that \<open>Update\<close> does not
  name.\<close>

datatype 'k Msg =
    dbResultMsg error
  | tablesResultMsg "string list" error
  | deleteResultMsg int error
  | rowsResultMsg RowPage error
  | WindowSizeMsg int int
  | KeyMsg 'k
  | OtherMsg

text \<open>The commands a transition can return. Each asynchronous command is the closure
  that the function of the same name builds, identified by the arguments it captures;
  \<open>'db\<close> is the type of the database client and \<open>inputCmd\<close> wraps a command of the
  text input widget.\<close>

datatype ('db, 'lc) Cmd =
    Quit
  | connectCmd 'db ConnConfig
  | deleteRowsCmd 'db string string
  | listTablesCmd 'db
  | fetchRowsCmd 'db string QueryOptions
  | inputCmd 'lc

record ('db, 'ti) Model =
  dbClient :: 'db
  hostInput :: 'ti
  portInput :: 'ti
  userInput :: 'ti
  passInput :: 'ti
  dbInput :: 'ti
  focusIndex :: int
  mode :: mode
  status :: string
  loading :: bool
  tableNames :: "string list"
  tableCursor :: int
  selectedTable :: string
  columns :: "string list"
  rows :: "string list list"
  pageSize :: int
  offset :: int
  totalRows :: int
  filter' :: string
  filterInput :: 'ti
  editingFilter :: bool
  editingDelete :: bool
  width :: int
  horizOffset :: int

text \<open>
  The text input widget and the key events belong to the libraries \<^verbatim>\<open>bubbles/textinput\<close>
  and \<^verbatim>\<open>bubbletea\<close>, which are not part of the program. The model takes what it uses of
  them as a parameter: \<open>'ti\<close> is the widget's state, \<open>'k\<close> a key event, \<open>'lc\<close> a command
  of the widget. Nothing is assumed about these operations.
\<close>

record ('db, 'ti, 'k, 'lc) Lib =
  ti_New :: 'ti
  ti_SetPlaceholder :: "string \<Rightarrow> 'ti \<Rightarrow> 'ti"
  ti_SetPrompt :: "string \<Rightarrow> 'ti \<Rightarrow> 'ti"
  ti_SetEchoPassword :: "'ti \<Rightarrow> 'ti"
  ti_SetEchoCharacter :: "rune \<Rightarrow> 'ti \<Rightarrow> 'ti"
  ti_Value :: "'ti \<Rightarrow> string"
  ti_SetValue :: "string \<Rightarrow> 'ti \<Rightarrow> 'ti"
  ti_Focus :: "'ti \<Rightarrow> 'ti \<times> 'lc option"
  ti_Blur :: "'ti \<Rightarrow> 'ti"
  ti_Update :: "'k \<Rightarrow> 'ti \<Rightarrow> 'ti \<times> 'lc option"
  key_String :: "'k \<Rightarrow> string"
  tea_Batch :: "('db, 'lc) Cmd option list \<Rightarrow> ('db, 'lc) Cmd option"

subsection \<open>The initial model\<close>

definition initialModel :: "('db, 'ti, 'k, 'lc) Lib \<Rightarrow> 'db \<Rightarrow> ('db, 'ti) Model" where
  "initialModel L client =
     (let host = ti_SetPrompt L ''Host: '' (ti_SetPlaceholder L ''localhost'' (ti_New L));
          port = ti_SetPrompt L ''Port: '' (ti_SetPlaceholder L ''5432'' (ti_New L));
          user = ti_SetPrompt L ''User: '' (ti_SetPlaceholder L ''postgres'' (ti_New L));
          pass = ti_SetEchoCharacter L 0x2022 (ti_SetEchoPassword L
                   (ti_SetPrompt L ''Password: '' (ti_SetPlaceholder L ''password'' (ti_New L))));
          dbIn = ti_SetPrompt L ''Database: '' (ti_SetPlaceholder L ''database name'' (ti_New L));
          filterIn = ti_SetPrompt L ''WHERE ''
                   (ti_SetPlaceholder L (''id > 10 AND status = 'active'' @ [CHR 0x27]) (ti_New L))
      in \<lparr> dbClient = client,
           hostInput = fst (ti_Focus L host),
           portInput = port,
           userInput = user,
           passInput = pass,
           dbInput = dbIn,
           focusIndex = 0,
           mode = modeForm,
           status = ''Fill details and press Enter to connect.'',
           loading = False,
           tableNames = [],
           tableCursor = 0,
           selectedTable = [],
           columns = [],
           rows = [],
           pageSize = 10,
           offset = 0,
           totalRows = 0,
           filter' = [],
           filterInput = filterIn,
           editingFilter = False,
           editingDelete = False,
           width = 0,
           horizOffset = 0 \<rparr>)"

subsection \<open>Form mode\<close>

text \<open>\<^verbatim>\<open>updateFocus\<close>: blur the five inputs, focus the one \<open>focusIndex\<close> names, and collect
  the command of that \<^verbatim>\<open>Focus\<close> call.\<close>

definition updateFocus ::
  "('db, 'ti, 'k, 'lc) Lib \<Rightarrow> ('db, 'ti) Model \<Rightarrow> ('db, 'ti) Model \<times> ('db, 'lc) Cmd option list"
where
  "updateFocus L m0 =
     (let m = m0\<lparr> hostInput := ti_Blur L (hostInput m0),
                  portInput := ti_Blur L (portInput m0),
                  userInput := ti_Blur L (userInput m0),
                  passInput := ti_Blur L (passInput m0),
                  dbInput := ti_Blur L (dbInput m0) \<rparr>
      in if focusIndex m = 0
           then (m\<lparr>hostInput := fst (ti_Focus L (hostInput m))\<rparr>,
                 [map_option inputCmd (snd (ti_Focus L (hostInput m)))])
         else if focusIndex m = 1
           then (m\<lparr>portInput := fst (ti_Focus L (portInput m))\<rparr>,
                 [map_option inputCmd (snd (ti_Focus L (portInput m)))])
         else if focusIndex m = 2
           then (m\<lparr>userInput := fst (ti_Focus L (userInput m))\<rparr>,
                 [map_option inputCmd (snd (ti_Focus L (userInput m)))])
         else if focusIndex m = 3
           then (m\<lparr>passInput := fst (ti_Focus L (passInput m))\<rparr>,
                 [map_option inputCmd (snd (ti_Focus L (passInput m)))])
         else if focusIndex m = 4
           then (m\<lparr>dbInput := fst (ti_Focus L (dbInput m))\<rparr>,
                 [map_option inputCmd (snd (ti_Focus L (dbInput m)))])
         else (m, []))"

text \<open>The second half of \<^verbatim>\<open>updateFormKey\<close>, after its \<^verbatim>\<open>switch\<close>: refocus and forward the
  key to the focused input.\<close>

definition formInputs ::
  "('db, 'ti, 'k, 'lc) Lib \<Rightarrow> 'k \<Rightarrow> ('db, 'ti) Model \<Rightarrow> ('db, 'ti) Model \<times> ('db, 'lc) Cmd option"
where
  "formInputs L msg m0 =
     (let m = fst (updateFocus L m0); cmds = snd (updateFocus L m0) in
      if focusIndex m = 0
        then (m\<lparr>hostInput := fst (ti_Update L msg (hostInput m))\<rparr>,
              tea_Batch L (cmds @ [map_option inputCmd (snd (ti_Update L msg (hostInput m)))]))
      else if focusIndex m = 1
        then (m\<lparr>portInput := fst (ti_Update L msg (portInput m))\<rparr>,
              tea_Batch L (cmds @ [map_option inputCmd (snd (ti_Update L msg (portInput m)))]))
      else if focusIndex m = 2
        then (m\<lparr>userInput := fst (ti_Update L msg (userInput m))\<rparr>,
              tea_Batch L (cmds @ [map_option inputCmd (snd (ti_Update L msg (userInput m)))]))
      else if focusIndex m = 3
        then (m\<lparr>passInput := fst (ti_Update L msg (passInput m))\<rparr>,
              tea_Batch L (cmds @ [map_option inputCmd (snd (ti_Update L msg (passInput m)))]))
      else if focusIndex m = 4
        then (m\<lparr>dbInput := fst (ti_Update L msg (dbInput m))\<rparr>,
              tea_Batch L (cmds @ [map_option inputCmd (snd (ti_Update L msg (dbInput m)))]))
      else (m, tea_Batch L cmds))"

definition incFocus :: "('db, 'ti) Model \<Rightarrow> ('db, 'ti) Model" where
  "incFocus m = m\<lparr>focusIndex := (if focusIndex m + 1 > 4 then 4 else focusIndex m + 1)\<rparr>"

definition decFocus :: "('db, 'ti) Model \<Rightarrow> ('db, 'ti) Model" where
  "decFocus m = m\<lparr>focusIndex := (if focusIndex m - 1 < 0 then 0 else focusIndex m - 1)\<rparr>"

definition updateFormKey ::
  "('db, 'ti, 'k, 'lc) Lib \<Rightarrow> 'k \<Rightarrow> ('db, 'ti) Model \<Rightarrow> ('db, 'ti) Model \<times> ('db, 'lc) Cmd option"
where
  "updateFormKey L msg m =
     (let k = key_String L msg in
      if k = ''ctrl+c'' \<or> k = ''esc'' then (m, Some Quit)
      else if k = ''tab'' \<or> k = ''down'' then formInputs L msg (incFocus m)
      else if k = ''shift+tab'' \<or> k = ''up'' then formInputs L msg (decFocus m)
      else if k = ''enter'' then
        (if focusIndex m = 4
         then (m\<lparr>loading := True, status := ''Connecting to DB...''\<rparr>,
               Some (connectCmd (dbClient m)
                 \<lparr> Host = ti_Value L (hostInput m),
                   Port = ti_Value L (portInput m),
                   User = ti_Value L (userInput m),
                   Password = ti_Value L (passInput m),
                   Database = ti_Value L (dbInput m) \<rparr>))
         else formInputs L msg (incFocus m))
      else formInputs L msg m)"

subsection \<open>Table list mode\<close>

text \<open>The result is \<open>None\<close> where the Go code panics: \<^verbatim>\<open>m.tableNames[m.tableCursor]\<close> with
  the cursor out of range.\<close>

definition updateTablesKey ::
  "('db, 'ti, 'k, 'lc) Lib \<Rightarrow> 'k \<Rightarrow> ('db, 'ti) Model
     \<Rightarrow> (('db, 'ti) Model \<times> ('db, 'lc) Cmd option) option"
where
  "updateTablesKey L msg m =
     (let k = key_String L msg in
      if k = ''ctrl+c'' \<or> k = ''esc'' \<or> k = ''q'' then Some (m, Some Quit)
      else if k = ''up'' then
        Some (if tableCursor m > 0 then m\<lparr>tableCursor := tableCursor m - 1\<rparr> else m, None)
      else if k = ''down'' then
        Some (if tableCursor m < int (length (tableNames m)) - 1
              then m\<lparr>tableCursor := tableCursor m + 1\<rparr> else m, None)
      else if k = ''enter'' then
        (if length (tableNames m) = 0 then Some (m, None)
         else if tableCursor m < 0 \<or> int (length (tableNames m)) \<le> tableCursor m then None
         else let sel = tableNames m ! nat (tableCursor m) in
           Some (m\<lparr> selectedTable := sel,
                    loading := True,
                    offset := 0,
                    horizOffset := 0,
                    filter' := [],
                    status := ''Fetching rows from '' @ sel @ ''...'' \<rparr>,
                 Some (fetchRowsCmd (dbClient m) sel
                         \<lparr>Limit = pageSize m, Offset = 0, Filter = []\<rparr>)))
      else Some (m, None))"

subsection \<open>Row view mode\<close>

definition updateRowsKey ::
  "('db, 'ti, 'k, 'lc) Lib \<Rightarrow> 'k \<Rightarrow> ('db, 'ti) Model \<Rightarrow> ('db, 'ti) Model \<times> ('db, 'lc) Cmd option"
where
  "updateRowsKey L msg m =
     (let k = key_String L msg in
      if editingDelete m then
        (if k = ''esc'' \<or> k = ''ctrl+c'' then
           (m\<lparr> editingDelete := False,
                status := ''Delete cancelled. Press 'd' to delete again.'' \<rparr>, None)
         else if k = ''enter'' then
           (let where = TrimSpace (ti_Value L (filterInput m)) in
            if where = [] then
              (m\<lparr>status := ''WHERE clause cannot be empty for DELETE.''\<rparr>, None)
            else
              (m\<lparr> editingDelete := False, loading := True, status := ''Deleting rows...'' \<rparr>,
               Some (deleteRowsCmd (dbClient m) (selectedTable m) where)))
         else
           (m\<lparr>filterInput := fst (ti_Update L msg (filterInput m))\<rparr>,
            map_option inputCmd (snd (ti_Update L msg (filterInput m)))))
      else if editingFilter m then
        (if k = ''esc'' \<or> k = ''ctrl+c'' then
           (m\<lparr> editingFilter := False, filter' := [], offset := 0, loading := True,
                status := ''Filter cancelled. Press '/' to filter again.'' \<rparr>,
            Some (fetchRowsCmd (dbClient m) (selectedTable m)
                    \<lparr>Limit = pageSize m, Offset = 0, Filter = []\<rparr>))
         else if k = ''enter'' then
           (m\<lparr> filter' := ti_Value L (filterInput m), editingFilter := False, offset := 0,
                loading := True, status := ''Applying filter...'' \<rparr>,
            Some (fetchRowsCmd (dbClient m) (selectedTable m)
                    \<lparr>Limit = pageSize m, Offset = 0, Filter = ti_Value L (filterInput m)\<rparr>))
         else
           (m\<lparr>filterInput := fst (ti_Update L msg (filterInput m))\<rparr>,
            map_option inputCmd (snd (ti_Update L msg (filterInput m)))))
      else if k = ''ctrl+c'' \<or> k = ''q'' then (m, Some Quit)
      else if k = ''r'' then
        (m\<lparr> filter' := [], offset := 0, loading := True,
             status := ''Fetching rows from '' @ selectedTable m @ ''...'' \<rparr>,
         Some (fetchRowsCmd (dbClient m) (selectedTable m)
                 \<lparr>Limit = pageSize m, Offset = 0, Filter = []\<rparr>))
      else if k = ''d'' then
        (m\<lparr> editingDelete := True, editingFilter := False,
             filterInput := fst (ti_Focus L (ti_SetValue L [] (filterInput m))),
             status := ''Enter SQL WHERE clause for DELETE (without 'WHERE'). Enter to delete, Esc to cancel.'' \<rparr>,
         None)
      else if k = ''b'' then
        (m\<lparr> mode := modeTables,
             status := ''Use '' @ [CHR 0xE2, CHR 0x86, CHR 0x91] @ ''/''
                       @ [CHR 0xE2, CHR 0x86, CHR 0x93] @ '' and Enter to select another table.'' \<rparr>,
         None)
      else if k = ''/'' then
        (m\<lparr> editingFilter := True, editingDelete := False,
             filterInput := fst (ti_Focus L (ti_SetValue L (filter' m)
                              (ti_SetPlaceholder L ''Add Your Filter Here'' (filterInput m)))),
             status := ''Enter SQL WHERE clause (without 'WHERE'). Enter to apply, Esc to cancel.'' \<rparr>,
         None)
      else if k = ''n'' then
        (if totalRows m = 0 then (m, None)
         else let nextOffset = offset m + pageSize m in
           if nextOffset \<ge> totalRows m then (m\<lparr>status := ''Already at last page.''\<rparr>, None)
           else
             (m\<lparr>loading := True, status := ''Loading next page...''\<rparr>,
              Some (fetchRowsCmd (dbClient m) (selectedTable m)
                      \<lparr>Limit = pageSize m, Offset = nextOffset, Filter = filter' m\<rparr>)))
      else if k = ''p'' then
        (if totalRows m = 0 then (m, None)
         else let prevOffset = (if offset m - pageSize m < 0 then 0 else offset m - pageSize m) in
           if prevOffset = offset m then (m\<lparr>status := ''Already at first page.''\<rparr>, None)
           else
             (m\<lparr>loading := True, status := ''Loading previous page...''\<rparr>,
              Some (fetchRowsCmd (dbClient m) (selectedTable m)
                      \<lparr>Limit = pageSize m, Offset = prevOffset, Filter = filter' m\<rparr>)))
      else if k = ''left'' \<or> k = ''h'' then
        (m\<lparr>horizOffset := (if horizOffset m - 4 < 0 then 0 else horizOffset m - 4)\<rparr>, None)
      else if k = ''right'' \<or> k = ''l'' then (m\<lparr>horizOffset := horizOffset m + 4\<rparr>, None)
      else if k = ''shift+left'' then
        (m\<lparr>horizOffset := (if horizOffset m - 16 < 0 then 0 else horizOffset m - 16)\<rparr>, None)
      else if k = ''shift+right'' then (m\<lparr>horizOffset := horizOffset m + 16\<rparr>, None)
      else (m, None))"

subsection \<open>The transition function\<close>

definition handleKey ::
  "('db, 'ti, 'k, 'lc) Lib \<Rightarrow> 'k \<Rightarrow> ('db, 'ti) Model
     \<Rightarrow> (('db, 'ti) Model \<times> ('db, 'lc) Cmd option) option"
where
  "handleKey L msg m =
     (case mode m of
        modeForm \<Rightarrow> Some (updateFormKey L msg m)
      | modeTables \<Rightarrow> updateTablesKey L msg m
      | modeRows \<Rightarrow> Some (updateRowsKey L msg m))"

text \<open>\<^verbatim>\<open>Update\<close>: the next model and the command to run, or \<open>None\<close> where the Go code
  panics.\<close>

fun Update ::
  "('db, 'ti, 'k, 'lc) Lib \<Rightarrow> 'k Msg \<Rightarrow> ('db, 'ti) Model
     \<Rightarrow> (('db, 'ti) Model \<times> ('db, 'lc) Cmd option) option"
where
  "Update L (dbResultMsg err) m =
     (case err of
        Some e \<Rightarrow>
          Some (m\<lparr> loading := False, status := ''Connection failed: '' @ e, mode := modeForm \<rparr>,
                None)
      | None \<Rightarrow>
          Some (m\<lparr> status := ''Connected! Fetching tables...'', mode := modeTables,
                   loading := True \<rparr>,
                Some (listTablesCmd (dbClient m))))"
| "Update L (tablesResultMsg tables err) m =
     (case err of
        Some e \<Rightarrow>
          Some (m\<lparr> loading := False, status := ''Failed to fetch tables: '' @ e,
                   mode := modeForm \<rparr>, None)
      | None \<Rightarrow>
          Some (if length tables = 0
                then m\<lparr> loading := False, tableNames := tables, tableCursor := 0,
                        status := ''Connected but no tables found in public schema.'' \<rparr>
                else m\<lparr> loading := False, tableNames := tables, tableCursor := 0 \<rparr>,
                None))"
| "Update L (deleteResultMsg affected err) m =
     (case err of
        Some e \<Rightarrow>
          Some (m\<lparr> loading := False, status := ''Delete failed: '' @ e, mode := modeRows \<rparr>,
                None)
      | None \<Rightarrow>
          Some (m\<lparr> status := ''Deleted '' @ formatInt affected @ '' row(s). Reloading page...'',
                   loading := True \<rparr>,
                Some (fetchRowsCmd (dbClient m) (selectedTable m)
                        \<lparr>Limit = pageSize m, Offset = offset m, Filter = filter' m\<rparr>)))"
| "Update L (rowsResultMsg page err) m =
     (case err of
        Some e \<Rightarrow>
          Some (m\<lparr> loading := False, status := ''Failed to fetch rows: '' @ e,
                   mode := modeTables \<rparr>, None)
      | None \<Rightarrow>
          Some (m\<lparr> loading := False,
                   columns := Columns page,
                   rows := Rows page,
                   totalRows := TotalRows page,
                   offset := Offset' page,
                   status := ''Showing rows (page size '' @ formatInt (pageSize m)
                     @ ''). Press 'b' to go back, 'n'/'p' for next/prev page, '/' to filter.'',
                   mode := modeRows \<rparr>,
                None))"
| "Update L (WindowSizeMsg w h) m = Some (m\<lparr>width := w\<rparr>, None)"
| "Update L (KeyMsg msg) m = handleKey L msg m"
| "Update L OtherMsg m = Some (m, None)"

text \<open>The states the program can be in: the initial model, and every model a message
  leads to from one of them.\<close>

inductive reachable ::
  "('db, 'ti, 'k, 'lc) Lib \<Rightarrow> 'db \<Rightarrow> ('db, 'ti) Model \<Rightarrow> bool"
  for L :: "('db, 'ti, 'k, 'lc) Lib" and client :: 'db
where
  init: "reachable L client (initialModel L client)"
| step: "reachable L client m \<Longrightarrow> Update L msg m = Some (m', c) \<Longrightarrow> reachable L client m'"

text \<open>The three sub-modes of the row view, read off the two editing flags.\<close>

definition inBrowsing :: "('db, 'ti) Model \<Rightarrow> bool" where
  "inBrowsing m = (mode m = modeRows \<and> \<not> editingFilter m \<and> \<not> editingDelete m)"

definition inEditingFilter :: "('db, 'ti) Model \<Rightarrow> bool" where
  "inEditingFilter m = (mode m = modeRows \<and> editingFilter m \<and> \<not> editingDelete m)"

definition inEditingDelete :: "('db, 'ti) Model \<Rightarrow> bool" where
  "inEditingDelete m = (mode m = modeRows \<and> editingDelete m)"

subsection \<open>Running the model\<close>

text \<open>\<open>runMsgs\<close> feeds a list of messages to \<open>Update\<close>, one after the other.\<close>

fun runMsgs ::
  "('db, 'ti, 'k, 'lc) Lib \<Rightarrow> 'k Msg list \<Rightarrow> ('db, 'ti) Model \<Rightarrow> ('db, 'ti) Model option"
where
  "runMsgs L [] m = Some m"
| "runMsgs L (msg # msgs) m =
     (case Update L msg m of None \<Rightarrow> None | Some (m', c) \<Rightarrow> runMsgs L msgs m')"

text \<open>A plain text buffer in place of the widget, for running the model on concrete
  inputs: a key event is its name, a one-character key is appended to the buffer, and
  the widget has no commands of its own.\<close>

definition plainLib :: "(unit, string, string, unit) Lib" where
  "plainLib =
     \<lparr> ti_New = [],
       ti_SetPlaceholder = (\<lambda>p t. t),
       ti_SetPrompt = (\<lambda>p t. t),
       ti_SetEchoPassword = (\<lambda>t. t),
       ti_SetEchoCharacter = (\<lambda>r t. t),
       ti_Value = (\<lambda>t. t),
       ti_SetValue = (\<lambda>s t. s),
       ti_Focus = (\<lambda>t. (t, None)),
       ti_Blur = (\<lambda>t. t),
       ti_Update = (\<lambda>k t. (if length k = 1 then t @ k else t, None)),
       key_String = (\<lambda>k. k),
       tea_Batch = (\<lambda>cmds. None) \<rparr>"

text \<open>A row view of the table \<open>users\<close> with 25 rows, page size 10, showing the last page.\<close>

definition lastPage :: "(unit, string) Model" where
  "lastPage =
     (initialModel plainLib ())
       \<lparr> mode := modeRows, selectedTable := ''users'', columns := [''id''],
         rows := [[''21''], [''22''], [''23''], [''24''], [''25'']],
         totalRows := 25, offset := 20 \<rparr>"

text \<open>A buffer is white space only when each of its runes is white space.\<close>

definition whitespaceOnly :: "string \<Rightarrow> bool" where
  "whitespaceOnly s = list_all IsSpace (stringToRunes s)"


text \<open>The row view \<open>lastPage\<close> with the delete prompt open and a buffer of two blanks, and
  with the filter prompt open and the buffer \<open>id > 5\<close>.\<close>

definition deletePrompt :: "(unit, string) Model" where
  "deletePrompt = lastPage \<lparr> editingDelete := True, filterInput := ''  '' \<rparr>"

definition filterPrompt :: "(unit, string) Model" where
  "filterPrompt = lastPage \<lparr> editingFilter := True, filterInput := ''id > 5'' \<rparr>"

text \<open>A page of three rows of the table \<open>users\<close>, as a fetch at offset 0 returns it.\<close>

definition firstPage :: RowPage where
  "firstPage = \<lparr> Columns = [''id''], Rows = [[''1''], [''2''], [''3'']],
                 TotalRows = 25, Offset' = 0 \<rparr>"

text \<open>The model after a first page has arrived and \<open>/\<close> was pressed, and the model after a
  first page has arrived and the right arrow was pressed.\<close>

definition filterOpened :: "(unit, string) Model" where
  "filterOpened =
     the (runMsgs plainLib [rowsResultMsg firstPage None, KeyMsg ''/''] (initialModel plainLib ()))"


section \<open>Properties of the string functions\<close>

subsection \<open>Counting runes\<close>

lemma RuneCountInString_Nil: "RuneCountInString [] = 0"
  by (simp add: RuneCountInString.simps)



lemma DecodeRune_ascii: "ascii c \<Longrightarrow> DecodeRuneInString (c # s) = (int (byte c), 1)"
  by (simp add: DecodeRuneInString_def ascii_def)

lemma RuneCountInString_ascii_Cons:
  "ascii c \<Longrightarrow> RuneCountInString (c # s) = Suc (RuneCountInString s)"
  by (subst RuneCountInString.simps) (simp add: DecodeRune_ascii)

text \<open>Decoding the first rune of \<open>a\<close> does not depend on what follows \<open>a\<close>, as long as
  that starts with a byte below \<open>0x80\<close>: a sequence cut short by the end of \<open>a\<close> is as
  ill-formed as one cut short by such a byte.\<close>

lemma DecodeRune_append:
  assumes "a \<noteq> []" and "b = [] \<or> ascii (hd b)"
  shows "DecodeRuneInString (a @ b) = DecodeRuneInString a"
proof -
  consider c0 where "a = [c0]" | c0 c1 where "a = [c0, c1]"
    | c0 c1 c2 where "a = [c0, c1, c2]" | c0 c1 c2 c3 t where "a = c0 # c1 # c2 # c3 # t"
    using assms(1) by (metis list.exhaust)
  then show ?thesis
  proof cases
    case 1
    show ?thesis using assms(2)
      by (cases b) (simp_all add: 1 DecodeRuneInString_def Let_def seqSize_def acceptLo_def
          acceptHi_def ascii_def)
  next
    case 2
    show ?thesis using assms(2)
      by (cases b) (simp_all add: 2 DecodeRuneInString_def Let_def seqSize_def acceptLo_def
          acceptHi_def ascii_def)
  next
    case 3
    show ?thesis using assms(2)
      by (cases b) (simp_all add: 3 DecodeRuneInString_def Let_def seqSize_def acceptLo_def
          acceptHi_def ascii_def)
  next
    case 4
    show ?thesis
      by (simp add: 4 DecodeRuneInString_def Let_def seqSize_def)
  qed
qed

lemma RuneCountInString_append:
  assumes "b = [] \<or> ascii (hd b)"
  shows "RuneCountInString (a @ b) = RuneCountInString a + RuneCountInString b"
proof (induction a rule: RuneCountInString.induct)
  case (1 a)
  show ?case
  proof (cases "a = []")
    case True
    then show ?thesis by (simp add: RuneCountInString_Nil)
  next
    case False
    let ?w = "snd (DecodeRuneInString a)"
    have d: "DecodeRuneInString (a @ b) = DecodeRuneInString a"
      using False assms by (rule DecodeRune_append)
    have w: "?w \<le> length a" by (rule DecodeRune_width_le)
    have "RuneCountInString (a @ b) = Suc (RuneCountInString (drop ?w (a @ b)))"
      using False by (subst RuneCountInString.simps) (simp add: d)
    also have "drop ?w (a @ b) = drop ?w a @ b" using w by simp
    also have "RuneCountInString (drop ?w a @ b)
        = RuneCountInString (drop ?w a) + RuneCountInString b"
      using "1.IH" False by simp
    also have "Suc (RuneCountInString (drop ?w a) + RuneCountInString b)
        = RuneCountInString a + RuneCountInString b"
      using False by (subst (2) RuneCountInString.simps) simp
    finally show ?thesis .
  qed
qed

lemma RuneCountInString_replicate:
  "ascii c \<Longrightarrow> RuneCountInString (replicate n c) = n"
  by (induction n) (simp_all add: RuneCountInString_Nil RuneCountInString_ascii_Cons)

lemma RuneCountInString_padRight:
  "RuneCountInString (padRight w s) = max w (RuneCountInString s)"
proof -
  have sp: "ascii (CHR '' '')" by (simp add: ascii_def byte_def)
  have "replicate (w - RuneCountInString s) (CHR '' '') = []
        \<or> ascii (hd (replicate (w - RuneCountInString s) (CHR '' '')))"
    using sp by (cases "w - RuneCountInString s") simp_all
  then show ?thesis
    unfolding padRight_def
    by (simp add: RuneCountInString_append RuneCountInString_replicate sp max_def)
qed

subsection \<open>Splitting and joining lines\<close>






subsection \<open>Encoding and decoding\<close>

lemma byte_char_of: "k < 256 \<Longrightarrow> byte (char_of k) = k"
  by (simp add: byte_def)

text \<open>Well-formed sequences of two, three and four bytes decode with their full width.\<close>

lemma DecodeRune_width2:
  fixes s0 s1 :: nat
  assumes "0xC2 \<le> s0" "s0 \<le> 0xDF" "0x80 \<le> s1" "s1 \<le> 0xBF"
  shows "snd (DecodeRuneInString (char_of s0 # char_of s1 # rest)) = 2"
  using assms
  by (simp add: DecodeRuneInString_def Let_def byte_char_of seqSize_def acceptLo_def acceptHi_def)

lemma DecodeRune_width3:
  fixes s0 s1 s2 :: nat
  assumes "0xE0 \<le> s0" "s0 \<le> 0xEF" "acceptLo s0 \<le> s1" "s1 \<le> acceptHi s0"
    "0x80 \<le> s2" "s2 \<le> 0xBF"
  shows "snd (DecodeRuneInString (char_of s0 # char_of s1 # char_of s2 # rest)) = 3"
proof -
  have "s1 < 256" using assms(4) by (simp add: acceptHi_def split: if_splits)
  then show ?thesis using assms
    by (simp add: DecodeRuneInString_def Let_def byte_char_of seqSize_def)
qed

lemma DecodeRune_width4:
  fixes s0 s1 s2 s3 :: nat
  assumes "0xF0 \<le> s0" "s0 \<le> 0xF4" "acceptLo s0 \<le> s1" "s1 \<le> acceptHi s0"
    "0x80 \<le> s2" "s2 \<le> 0xBF" "0x80 \<le> s3" "s3 \<le> 0xBF"
  shows "snd (DecodeRuneInString (char_of s0 # char_of s1 # char_of s2 # char_of s3 # rest)) = 4"
proof -
  have "s1 < 256" using assms(4) by (simp add: acceptHi_def split: if_splits)
  then show ?thesis using assms
    by (simp add: DecodeRuneInString_def Let_def byte_char_of seqSize_def)
qed

lemma encodable_range: "encodable r \<le> 0x10FFFF" "\<not> (0xD800 \<le> encodable r \<and> encodable r \<le> 0xDFFF)"
  by (auto simp: encodable_def RuneError_def)

lemma EncodeRune_encodable:
  "EncodeRune r =
     (let n = encodable r
      in if n < 0x80 then [char_of n]
         else if n < 0x800 then [char_of (0xC0 + n div 64), char_of (0x80 + n mod 64)]
         else if n < 0x10000
           then [char_of (0xE0 + n div 4096), char_of (0x80 + (n div 64) mod 64),
                 char_of (0x80 + n mod 64)]
         else [char_of (0xF0 + n div 262144), char_of (0x80 + (n div 4096) mod 64),
               char_of (0x80 + (n div 64) mod 64), char_of (0x80 + n mod 64)])"
  by (simp add: EncodeRune_def encodable_def Let_def)

lemma EncodeRune_not_Nil: "EncodeRune r \<noteq> []"
  by (simp add: EncodeRune_encodable Let_def)

lemma div_in_range:
  fixes n :: nat
  assumes "0 < k" and "lo * k \<le> n" and "n < hi * k"
  shows "lo \<le> n div k" and "n div k < hi"
  using assms by (simp_all add: less_eq_div_iff_mult_less_eq div_less_iff_less_mult)

lemma mod_as_diff: "(a::nat) mod k = a - k * (a div k)"
  by (simp add: minus_mult_div_eq_mod)

lemma enc2_bytes: fixes n :: nat assumes "0x80 \<le> n" "n < 0x800"
  shows "0xC2 \<le> 0xC0 + n div 64" "0xC0 + n div 64 \<le> 0xDF"
      "0x80 \<le> 0x80 + n mod 64" "0x80 + n mod 64 \<le> 0xBF"
proof -
  have "2 \<le> n div 64" "n div 64 < 32"
    using assms by (simp_all add: div_in_range)
  then show "0xC2 \<le> 0xC0 + n div 64" "0xC0 + n div 64 \<le> 0xDF" by simp_all
  have "n mod 64 < 64" by simp
  then show "0x80 \<le> 0x80 + n mod 64" "0x80 + n mod 64 \<le> 0xBF" by simp_all
qed

lemma enc3_lo: fixes n :: nat assumes "0x800 \<le> n" "n < 0x10000" "n div 4096 = 0"
  shows "32 \<le> (n div 64) mod 64"
proof -
  have "n div 64 div 64 = 0" using assms(3) by (simp add: div_mult2_eq [symmetric])
  moreover have "32 \<le> n div 64" using assms(1) by (simp add: div_in_range)
  ultimately show ?thesis by (simp add: mod_as_diff)
qed

lemma enc3_hi: fixes n :: nat assumes "n < 0xD800" "n div 4096 = 13"
  shows "(n div 64) mod 64 \<le> 31"
proof -
  have "n div 64 div 64 = 13" using assms(2) by (simp add: div_mult2_eq [symmetric])
  moreover have "n div 64 < 864" using assms(1) by (simp add: div_in_range)
  ultimately show ?thesis by (simp add: mod_as_diff)
qed

lemma enc4_lead: fixes n :: nat assumes "0x10000 \<le> n" "n \<le> 0x10FFFF"
  shows "0xF0 \<le> 0xF0 + n div 262144" "0xF0 + n div 262144 \<le> 0xF4"
proof -
  have "n div 262144 < 5" using assms by (simp add: div_in_range)
  then show "0xF0 \<le> 0xF0 + n div 262144" "0xF0 + n div 262144 \<le> 0xF4" by simp_all
qed

lemma enc4_lo: fixes n :: nat assumes "0x10000 \<le> n" "n div 262144 = 0"
  shows "16 \<le> (n div 4096) mod 64"
proof -
  have "n div 4096 div 64 = 0" using assms(2) by (simp add: div_mult2_eq [symmetric])
  moreover have "16 \<le> n div 4096" using assms(1) by (simp add: div_in_range)
  ultimately show ?thesis by (simp add: mod_as_diff)
qed

lemma enc4_hi: fixes n :: nat assumes "n \<le> 0x10FFFF" "n div 262144 = 4"
  shows "(n div 4096) mod 64 \<le> 15"
proof -
  have "n div 4096 div 64 = 4" using assms(2) by (simp add: div_mult2_eq [symmetric])
  moreover have "n div 4096 < 272" using assms(1) by (simp add: div_in_range)
  ultimately show ?thesis by (simp add: mod_as_diff)
qed

lemma cont_byte: "0x80 \<le> 0x80 + (a::nat) mod 64" "0x80 + (a::nat) mod 64 \<le> 0xBF"
proof -
  have "a mod 64 < 64" by simp
  then show "0x80 \<le> 0x80 + a mod 64" "0x80 + a mod 64 \<le> 0xBF" by simp_all
qed

lemma DecodeRune_EncodeRune_width:
  "snd (DecodeRuneInString (EncodeRune r @ rest)) = length (EncodeRune r)"
proof -
  let ?n = "encodable r"
  consider "?n < 0x80" | "0x80 \<le> ?n" "?n < 0x800" | "0x800 \<le> ?n" "?n < 0x10000"
    | "0x10000 \<le> ?n"
    by linarith
  then show ?thesis
  proof cases
    case 1
    then show ?thesis
      by (simp add: EncodeRune_encodable Let_def DecodeRuneInString_def byte_char_of)
  next
    case 2
    show ?thesis
      using 2 DecodeRune_width2 [OF enc2_bytes [OF 2]]
      by (simp add: EncodeRune_encodable Let_def)
  next
    case 3
    have ns: "\<not> (0xD800 \<le> ?n \<and> ?n \<le> 0xDFFF)" by (rule encodable_range)
    have d16: "?n div 4096 < 16" using 3 by (simp add: div_in_range)
    then have b0: "0xE0 \<le> 0xE0 + ?n div 4096" "0xE0 + ?n div 4096 \<le> 0xEF"
      by simp_all
    have lo: "acceptLo (0xE0 + ?n div 4096) \<le> 0x80 + (?n div 64) mod 64"
    proof (cases "?n div 4096 = 0")
      case True
      then show ?thesis using enc3_lo [OF 3 True] by (simp add: acceptLo_def)
    next
      case False
      then show ?thesis using d16 by (simp add: acceptLo_def)
    qed
    have hi: "0x80 + (?n div 64) mod 64 \<le> acceptHi (0xE0 + ?n div 4096)"
    proof (cases "?n div 4096 = 13")
      case True
      then have "?n div 4096 < 14" by simp
      then have "?n < 0xE000" by (simp add: div_less_iff_less_mult)
      then have "?n < 0xD800" using ns by linarith
      then show ?thesis using enc3_hi [OF _ True] True by (simp add: acceptHi_def)
    next
      case False
      then show ?thesis using d16 cont_byte(2) [of "?n div 64"] by (simp add: acceptHi_def)
    qed
    show ?thesis
      using 3 DecodeRune_width3 [OF b0 lo hi cont_byte]
      by (simp add: EncodeRune_encodable Let_def)
  next
    case 4
    have le: "?n \<le> 0x10FFFF" by (rule encodable_range)
    note b0 = enc4_lead [OF 4 le]
    have lo: "acceptLo (0xF0 + ?n div 262144) \<le> 0x80 + (?n div 4096) mod 64"
    proof (cases "?n div 262144 = 0")
      case True
      then show ?thesis using enc4_lo [OF 4 True] by (simp add: acceptLo_def)
    next
      case False
      then show ?thesis by (simp add: acceptLo_def)
    qed
    have hi: "0x80 + (?n div 4096) mod 64 \<le> acceptHi (0xF0 + ?n div 262144)"
    proof (cases "?n div 262144 = 4")
      case True
      then show ?thesis using enc4_hi [OF le True] by (simp add: acceptHi_def)
    next
      case False
      then show ?thesis using cont_byte(2) [of "?n div 4096"] by (simp add: acceptHi_def)
    qed
    show ?thesis
      using 4 DecodeRune_width4 [OF b0 lo hi cont_byte cont_byte]
      by (simp add: EncodeRune_encodable Let_def)
  qed
qed

lemma RuneCountInString_EncodeRune:
  "RuneCountInString (EncodeRune r @ rest) = Suc (RuneCountInString rest)"
  by (subst RuneCountInString.simps)
     (simp add: EncodeRune_not_Nil DecodeRune_EncodeRune_width)

lemma RuneCountInString_runesToString:
  "RuneCountInString (runesToString rs) = length rs"
  by (induction rs)
     (simp_all add: runesToString_def RuneCountInString_Nil RuneCountInString_EncodeRune)

section \<open>Invariants of the transition function\<close>

lemma reachable_runMsgs:
  "reachable L client m \<Longrightarrow> runMsgs L msgs m = Some m' \<Longrightarrow> reachable L client m'"
proof (induction msgs arbitrary: m)
  case Nil
  then show ?case by simp
next
  case (Cons msg msgs)
  then show ?case
    by (auto split: option.splits intro: reachable.step)
qed

lemma updateFocus_frame:
  "editingFilter (fst (updateFocus L m)) = editingFilter m"
  "editingDelete (fst (updateFocus L m)) = editingDelete m"
  "horizOffset (fst (updateFocus L m)) = horizOffset m"
  "focusIndex (fst (updateFocus L m)) = focusIndex m"
  by (simp_all add: updateFocus_def Let_def)

lemma formInputs_frame:
  "editingFilter (fst (formInputs L k m)) = editingFilter m"
  "editingDelete (fst (formInputs L k m)) = editingDelete m"
  "horizOffset (fst (formInputs L k m)) = horizOffset m"
  by (simp_all add: formInputs_def Let_def updateFocus_frame)

lemma updateFormKey_frame:
  "editingFilter (fst (updateFormKey L k m)) = editingFilter m"
  "editingDelete (fst (updateFormKey L k m)) = editingDelete m"
  "horizOffset (fst (updateFormKey L k m)) = horizOffset m"
  by (simp_all add: updateFormKey_def Let_def formInputs_frame incFocus_def decFocus_def)

lemma updateTablesKey_frame:
  assumes "updateTablesKey L k m = Some (m', c)"
  shows "editingFilter m' = editingFilter m" "editingDelete m' = editingDelete m"
    "horizOffset m' = horizOffset m \<or> horizOffset m' = 0"
  using assms by (auto simp: updateTablesKey_def Let_def split: if_splits)

lemma updateRowsKey_flags:
  "\<not> (editingFilter m \<and> editingDelete m)
   \<Longrightarrow> \<not> (editingFilter (fst (updateRowsKey L k m)) \<and> editingDelete (fst (updateRowsKey L k m)))"
  by (simp add: updateRowsKey_def Let_def)


lemma Update_result_frame:
  assumes "Update L msg m = Some (m', c)" and "\<forall>k. msg \<noteq> KeyMsg k"
  shows "editingFilter m' = editingFilter m \<and> editingDelete m' = editingDelete m
         \<and> horizOffset m' = horizOffset m"
proof (cases msg)
  case (dbResultMsg e)
  then show ?thesis using assms(1) by (cases e) auto
next
  case (tablesResultMsg ts e)
  then show ?thesis using assms(1) by (cases e; cases "length ts = 0") auto
next
  case (deleteResultMsg n e)
  then show ?thesis using assms(1) by (cases e) auto
next
  case (rowsResultMsg p e)
  then show ?thesis using assms(1) by (cases e) auto
next
  case (WindowSizeMsg w h)
  then show ?thesis using assms(1) by auto
next
  case (KeyMsg k)
  then show ?thesis using assms(2) by simp
next
  case OtherMsg
  then show ?thesis using assms(1) by auto
qed

lemma Update_key_frame:
  assumes "Update L (KeyMsg k) m = Some (m', c)"
  shows "(mode m = modeRows \<and> m' = fst (updateRowsKey L k m))
       \<or> (mode m \<noteq> modeRows \<and> editingFilter m' = editingFilter m
            \<and> editingDelete m' = editingDelete m
            \<and> (horizOffset m' = horizOffset m \<or> horizOffset m' = 0))"
proof (cases "mode m")
  case modeForm
  then have "m' = fst (updateFormKey L k m)"
    using assms by (auto simp: handleKey_def)
  then show ?thesis using modeForm by (simp add: updateFormKey_frame)
next
  case modeTables
  then have "updateTablesKey L k m = Some (m', c)"
    using assms by (simp add: handleKey_def)
  then show ?thesis using modeTables updateTablesKey_frame [of L k m m' c] by simp
next
  case modeRows
  then have "m' = fst (updateRowsKey L k m)"
    using assms by (auto simp: handleKey_def)
  then show ?thesis using modeRows by simp
qed

lemma Update_flags:
  assumes "Update L msg m = Some (m', c)" and "\<not> (editingFilter m \<and> editingDelete m)"
  shows "\<not> (editingFilter m' \<and> editingDelete m')"
proof (cases "\<exists>k. msg = KeyMsg k")
  case True
  then obtain k where "msg = KeyMsg k" by blast
  then show ?thesis
    using Update_key_frame [of L k m m' c] assms updateRowsKey_flags [of m L k] by auto
next
  case False
  then show ?thesis using Update_result_frame [of L msg m m' c] assms by simp
qed



subsection \<open>Horizontal scrolling\<close>




section \<open>Properties of the interaction model\<close>

lemma trimLeftSpace_whitespaceOnly:
  "whitespaceOnly s \<Longrightarrow> trimLeftSpace s = []"
proof (induction s rule: trimLeftSpace.induct)
  case (1 s)
  show ?case
  proof (cases "s = []")
    case True
    then show ?thesis by (simp add: trimLeftSpace.simps)
  next
    case False
    from False have unf: "stringToRunes s =
        fst (DecodeRuneInString s) # stringToRunes (drop (snd (DecodeRuneInString s)) s)"
      by (subst stringToRunes.simps) simp
    from "1.prems" unf have sp: "IsSpace (fst (DecodeRuneInString s))"
      and rest: "whitespaceOnly (drop (snd (DecodeRuneInString s)) s)"
      by (simp_all add: whitespaceOnly_def)
    have "trimLeftSpace s = trimLeftSpace (drop (snd (DecodeRuneInString s)) s)"
      using False sp by (subst trimLeftSpace.simps) simp
    also have "\<dots> = []" using "1.IH" False sp rest by simp
    finally show ?thesis .
  qed
qed

lemma TrimSpace_whitespaceOnly: "whitespaceOnly s \<Longrightarrow> TrimSpace s = []"
  by (simp add: TrimSpace_def trimLeftSpace_whitespaceOnly trimRightSpace.simps)

subsection \<open>Pagination\<close>




subsection \<open>The delete prompt\<close>

text \<open>C4. In the delete prompt, with a buffer that is empty or holds white space only,
  Enter returns no command, sets the status, and changes nothing else: columns, rows,
  totalRows, offset and filter are as before and the delete prompt stays open.\<close>

theorem C4_empty_delete_rejected:
  assumes "inEditingDelete m" and "key_String L k = ''enter''"
    and "whitespaceOnly (ti_Value L (filterInput m))"
  shows "updateRowsKey L k m = (m\<lparr>status := ''WHERE clause cannot be empty for DELETE.''\<rparr>, None)
       \<and> Update L (KeyMsg k) m
           = Some (m\<lparr>status := ''WHERE clause cannot be empty for DELETE.''\<rparr>, None)
       \<and> snd (updateRowsKey L k m) = None
       \<and> status (fst (updateRowsKey L k m)) = ''WHERE clause cannot be empty for DELETE.''
       \<and> columns (fst (updateRowsKey L k m)) = columns m
       \<and> rows (fst (updateRowsKey L k m)) = rows m
       \<and> totalRows (fst (updateRowsKey L k m)) = totalRows m
       \<and> offset (fst (updateRowsKey L k m)) = offset m
       \<and> filter' (fst (updateRowsKey L k m)) = filter' m
       \<and> inEditingDelete (fst (updateRowsKey L k m))"
proof -
  have ed: "editingDelete m" and md: "mode m = modeRows"
    using assms(1) by (simp_all add: inEditingDelete_def)
  have ts: "TrimSpace (ti_Value L (filterInput m)) = []"
    using assms(3) by (rule TrimSpace_whitespaceOnly)
  have eq: "updateRowsKey L k m
      = (m\<lparr>status := ''WHERE clause cannot be empty for DELETE.''\<rparr>, None)"
    using ed assms(2) ts by (simp add: updateRowsKey_def Let_def)
  have up: "Update L (KeyMsg k) m
      = Some (m\<lparr>status := ''WHERE clause cannot be empty for DELETE.''\<rparr>, None)"
    using md eq by (simp add: handleKey_def)
  show ?thesis using assms(1) up by (simp add: eq inEditingDelete_def)
qed

theorem C4_empty_delete_rejected_witness:
  "inEditingDelete deletePrompt \<and> key_String plainLib ''enter'' = ''enter''
   \<and> whitespaceOnly (ti_Value plainLib (filterInput deletePrompt))
   \<and> updateRowsKey plainLib ''enter'' deletePrompt
       = (deletePrompt\<lparr>status := ''WHERE clause cannot be empty for DELETE.''\<rparr>, None)"
proof -
  have a: "inEditingDelete deletePrompt"
    by (simp add: inEditingDelete_def deletePrompt_def lastPage_def initialModel_def)
  have b: "key_String plainLib ''enter'' = ''enter''"
    by (simp add: plainLib_def)
  have v: "ti_Value plainLib (filterInput deletePrompt) = ''  ''"
    by (simp add: plainLib_def deletePrompt_def)
  have w: "whitespaceOnly ''  ''"
    by code_simp
  have c: "whitespaceOnly (ti_Value plainLib (filterInput deletePrompt))"
    using v w by simp
  show ?thesis using C4_empty_delete_rejected [OF a b c] a b c by simp
qed

subsection \<open>Results of asynchronous commands\<close>

text \<open>C5, as the code has it. A successful delete result sets the status to the number
  of rows deleted and returns a fetch of the selected table with the offset and the
  filter of the current model. A failed one returns no command, sets the status to the
  failure text and the mode to the row view, and leaves columns, rows, totalRows, offset
  and both editing flags as they were: the model is in the browsing sub-mode afterwards
  exactly when neither prompt was open before.\<close>

theorem C5_delete_result:
  "Update L (deleteResultMsg affected None) m
     = Some (m\<lparr> status := ''Deleted '' @ formatInt affected @ '' row(s). Reloading page...'',
                loading := True \<rparr>,
             Some (fetchRowsCmd (dbClient m) (selectedTable m)
                     \<lparr>Limit = pageSize m, Offset = offset m, Filter = filter' m\<rparr>))
   \<and> status (fst (the (Update L (deleteResultMsg 3 None) m)))
       = ''Deleted 3 row(s). Reloading page...''
   \<and> Update L (deleteResultMsg affected (Some e)) m
       = Some (m\<lparr> loading := False, status := ''Delete failed: '' @ e, mode := modeRows \<rparr>, None)
   \<and> inBrowsing (fst (the (Update L (deleteResultMsg affected (Some e)) m)))
       = (\<not> editingFilter m \<and> \<not> editingDelete m)
   \<and> columns (fst (the (Update L (deleteResultMsg affected (Some e)) m))) = columns m
   \<and> rows (fst (the (Update L (deleteResultMsg affected (Some e)) m))) = rows m
   \<and> totalRows (fst (the (Update L (deleteResultMsg affected (Some e)) m))) = totalRows m
   \<and> offset (fst (the (Update L (deleteResultMsg affected (Some e)) m))) = offset m"
proof -
  have "natDigits 3 = ''3''"
    by code_simp
  then show ?thesis
    by (simp add: inBrowsing_def formatInt_def)
qed

text \<open>C5 as stated fails when the filter prompt was opened while the delete was running:
  the failed result leaves the prompt open, so the model is not in the browsing
  sub-mode. The messages are: a page arrives, \<open>d\<close>, \<open>x\<close>, Enter (the delete is sent),
  \<open>/\<close>, and the failed delete result.\<close>

theorem C5_counterexample:
  "map_option inBrowsing
     (runMsgs plainLib
        [rowsResultMsg firstPage None, KeyMsg ''d'', KeyMsg ''x'', KeyMsg ''enter'',
         KeyMsg ''/'', deleteResultMsg 0 (Some ''syntax error'')]
        (initialModel plainLib ()))
   = Some False"
  by code_simp

text \<open>C6, as the code has it. A successful rows result returns no command, stores the
  columns, rows, total and offset of the page, sets the mode to the row view and leaves
  both editing flags as they were: the model is in the browsing sub-mode afterwards
  exactly when neither prompt was open before. A failed one sets the mode to the table
  list and the status to the failure text, whatever the mode was.\<close>

theorem C6_rows_result:
  "Update L (rowsResultMsg page None) m
     = Some (m\<lparr> loading := False, columns := Columns page, rows := Rows page,
                totalRows := TotalRows page, offset := Offset' page,
                status := ''Showing rows (page size '' @ formatInt (pageSize m)
                  @ ''). Press 'b' to go back, 'n'/'p' for next/prev page, '/' to filter.'',
                mode := modeRows \<rparr>, None)
   \<and> mode (fst (the (Update L (rowsResultMsg page None) m))) = modeRows
   \<and> inBrowsing (fst (the (Update L (rowsResultMsg page None) m)))
       = (\<not> editingFilter m \<and> \<not> editingDelete m)
   \<and> Update L (rowsResultMsg page (Some e)) m
       = Some (m\<lparr> loading := False, status := ''Failed to fetch rows: '' @ e,
                  mode := modeTables \<rparr>, None)
   \<and> mode (fst (the (Update L (rowsResultMsg page (Some e)) (m\<lparr>mode := modeRows\<rparr>))))
       = modeTables"
  by (simp add: inBrowsing_def)

text \<open>C6 as stated fails when the filter prompt was opened while the fetch was running:
  the successful result leaves the prompt open. The messages are: a page arrives, \<open>n\<close>
  (the next page is requested), \<open>/\<close>, and the next page arrives.\<close>

theorem C6_counterexample:
  "map_option inBrowsing
     (runMsgs plainLib
        [rowsResultMsg firstPage None, KeyMsg ''n'', KeyMsg ''/'',
         rowsResultMsg (firstPage\<lparr>Offset' := 10\<rparr>) None]
        (initialModel plainLib ()))
   = Some False"
  by code_simp

subsection \<open>The filter prompt\<close>

text \<open>C7. In the filter prompt, Enter stores the buffer as the filter, closes the prompt,
  sets the offset to 0 and returns a fetch with that filter at offset 0; Esc stores the
  empty filter, closes the prompt, sets the offset to 0 and returns a fetch with the
  empty filter at offset 0.\<close>

theorem C7_filter_prompt:
  assumes "inEditingFilter m" and "key_String L ke = ''enter''" and "key_String L kx = ''esc''"
  shows "updateRowsKey L ke m =
           (m\<lparr> filter' := ti_Value L (filterInput m), editingFilter := False, offset := 0,
                loading := True, status := ''Applying filter...'' \<rparr>,
            Some (fetchRowsCmd (dbClient m) (selectedTable m)
                    \<lparr>Limit = pageSize m, Offset = 0, Filter = ti_Value L (filterInput m)\<rparr>))
       \<and> updateRowsKey L kx m =
           (m\<lparr> editingFilter := False, filter' := [], offset := 0, loading := True,
                status := ''Filter cancelled. Press '/' to filter again.'' \<rparr>,
            Some (fetchRowsCmd (dbClient m) (selectedTable m)
                    \<lparr>Limit = pageSize m, Offset = 0, Filter = []\<rparr>))
       \<and> inBrowsing (fst (updateRowsKey L ke m)) \<and> inBrowsing (fst (updateRowsKey L kx m))"
proof -
  have f: "editingFilter m" "\<not> editingDelete m" "mode m = modeRows"
    using assms(1) by (simp_all add: inEditingFilter_def)
  have e: "updateRowsKey L ke m =
           (m\<lparr> filter' := ti_Value L (filterInput m), editingFilter := False, offset := 0,
                loading := True, status := ''Applying filter...'' \<rparr>,
            Some (fetchRowsCmd (dbClient m) (selectedTable m)
                    \<lparr>Limit = pageSize m, Offset = 0, Filter = ti_Value L (filterInput m)\<rparr>))"
    using f assms(2) by (simp add: updateRowsKey_def Let_def)
  have x: "updateRowsKey L kx m =
           (m\<lparr> editingFilter := False, filter' := [], offset := 0, loading := True,
                status := ''Filter cancelled. Press '/' to filter again.'' \<rparr>,
            Some (fetchRowsCmd (dbClient m) (selectedTable m)
                    \<lparr>Limit = pageSize m, Offset = 0, Filter = []\<rparr>))"
    using f assms(3) by (simp add: updateRowsKey_def Let_def)
  show ?thesis using f by (simp add: e x inBrowsing_def)
qed

theorem C7_filter_prompt_witness:
  "inEditingFilter filterPrompt \<and> key_String plainLib ''enter'' = ''enter''
   \<and> key_String plainLib ''esc'' = ''esc''
   \<and> snd (updateRowsKey plainLib ''enter'' filterPrompt)
       = Some (fetchRowsCmd () ''users'' \<lparr>Limit = 10, Offset = 0, Filter = ''id > 5''\<rparr>)
   \<and> snd (updateRowsKey plainLib ''esc'' filterPrompt)
       = Some (fetchRowsCmd () ''users'' \<lparr>Limit = 10, Offset = 0, Filter = []\<rparr>)"
proof -
  have a: "inEditingFilter filterPrompt"
    by (simp add: inEditingFilter_def filterPrompt_def lastPage_def initialModel_def)
  have b: "key_String plainLib ''enter'' = ''enter''" and c: "key_String plainLib ''esc'' = ''esc''"
    by (simp_all add: plainLib_def)
  have v: "ti_Value plainLib (filterInput filterPrompt) = ''id > 5''"
    "dbClient filterPrompt = ()" "selectedTable filterPrompt = ''users''"
    "pageSize filterPrompt = 10"
    by (simp_all add: plainLib_def filterPrompt_def lastPage_def initialModel_def)
  show ?thesis using C7_filter_prompt [OF a b c] a b c v by simp
qed

subsection \<open>The two prompts exclude each other\<close>

text \<open>C8. In every model reachable from the initial one by key and result messages, the
  flags editingFilter and editingDelete are not both set.\<close>

theorem C8_one_prompt:
  "reachable L client m \<Longrightarrow> \<not> (editingFilter m \<and> editingDelete m)"
proof (induction rule: reachable.induct)
  case init
  show ?case by (simp add: initialModel_def Let_def)
next
  case (step m msg m' c)
  then show ?case using Update_flags by blast
qed

theorem C8_one_prompt_witness:
  "reachable plainLib () filterOpened
   \<and> editingFilter filterOpened \<and> \<not> (editingFilter filterOpened \<and> editingDelete filterOpened)"
proof -
  have "runMsgs plainLib [rowsResultMsg firstPage None, KeyMsg ''/'']
          (initialModel plainLib ()) \<noteq> None"
    by code_simp
  then have run: "runMsgs plainLib [rowsResultMsg firstPage None, KeyMsg ''/'']
               (initialModel plainLib ()) = Some filterOpened"
    unfolding filterOpened_def by (rule option.collapse [symmetric])
  have r: "reachable plainLib () filterOpened"
    by (rule reachable_runMsgs [OF reachable.init run])
  have f: "editingFilter filterOpened"
    by code_simp
  show ?thesis using C8_one_prompt [OF r] r f by simp
qed

subsection \<open>The loading flag guards nothing\<close>

lemma updateRowsKey_loading_cmd:
  "snd (updateRowsKey L k (m\<lparr>loading := b\<rparr>)) = snd (updateRowsKey L k m)"
  by (simp add: updateRowsKey_def Let_def)

lemma updateRowsKey_loading_fields:
  fixes m :: "('db, 'ti) Model" and L :: "('db, 'ti, 'k, 'lc) Lib" and k :: 'k and b :: bool
  defines "m1 \<equiv> fst (updateRowsKey L k (m\<lparr>loading := b\<rparr>))"
    and "m2 \<equiv> fst (updateRowsKey L k m)"
  shows "dbClient m1 = dbClient m2" "hostInput m1 = hostInput m2" "portInput m1 = portInput m2"
    "userInput m1 = userInput m2" "passInput m1 = passInput m2" "dbInput m1 = dbInput m2"
    "focusIndex m1 = focusIndex m2" "mode m1 = mode m2" "status m1 = status m2"
    "tableNames m1 = tableNames m2" "tableCursor m1 = tableCursor m2"
    "selectedTable m1 = selectedTable m2" "columns m1 = columns m2" "rows m1 = rows m2"
    "pageSize m1 = pageSize m2" "offset m1 = offset m2" "totalRows m1 = totalRows m2"
    "filter' m1 = filter' m2" "filterInput m1 = filterInput m2"
    "editingFilter m1 = editingFilter m2" "editingDelete m1 = editingDelete m2"
    "width m1 = width m2" "horizOffset m1 = horizOffset m2" "Model.more m1 = Model.more m2"
  unfolding m1_def m2_def by (simp_all add: updateRowsKey_def Let_def)

lemma updateRowsKey_loading_model:
  "(fst (updateRowsKey L k (m\<lparr>loading := b\<rparr>)))\<lparr>loading := c\<rparr>
     = (fst (updateRowsKey L k m))\<lparr>loading := c\<rparr>"
  by (rule Model.equality) (simp_all add: updateRowsKey_loading_fields)

text \<open>C9. A key handled in the row view does not read the loading flag: two models that
  differ in that flag only give the same command and, but for that flag, the same
  model. So a fetch and a delete are sent while loading is set: key \<open>r\<close> on the view
  \<open>lastPage\<close>, and Enter in its delete prompt with the buffer \<open>id = 1\<close>.\<close>

theorem C9_loading_not_consulted:
  "snd (updateRowsKey L k (m\<lparr>loading := b\<rparr>)) = snd (updateRowsKey L k m)
   \<and> (fst (updateRowsKey L k (m\<lparr>loading := b\<rparr>)))\<lparr>loading := c\<rparr>
       = (fst (updateRowsKey L k m))\<lparr>loading := c\<rparr>
   \<and> snd (updateRowsKey plainLib ''r'' (lastPage\<lparr>loading := True\<rparr>))
       = Some (fetchRowsCmd () ''users'' \<lparr>Limit = 10, Offset = 0, Filter = []\<rparr>)
   \<and> snd (updateRowsKey plainLib ''enter''
             (deletePrompt\<lparr>loading := True, filterInput := ''id = 1''\<rparr>))
       = Some (deleteRowsCmd () ''users'' ''id = 1'')"
proof -
  have a: "snd (updateRowsKey plainLib ''r'' (lastPage\<lparr>loading := True\<rparr>))
       = Some (fetchRowsCmd () ''users'' \<lparr>Limit = 10, Offset = 0, Filter = []\<rparr>)"
    by code_simp
  have b: "snd (updateRowsKey plainLib ''enter''
             (deletePrompt\<lparr>loading := True, filterInput := ''id = 1''\<rparr>))
       = Some (deleteRowsCmd () ''users'' ''id = 1'')"
    by code_simp
  show ?thesis
    by (intro conjI updateRowsKey_loading_cmd updateRowsKey_loading_model a b)
qed

subsection \<open>The horizontal offset\<close>



end
